theory Spec2Isabelle
  imports Complex_Main "HOL-Library.Sublist"
begin

section \<open>The chat box: composer state, query cache and the send pipeline\<close>

text \<open>
  This theory embeds the logic of \<^verbatim>\<open>chat-box.tsx\<close> (component \<^verbatim>\<open>ChatBox\<close>): the composer's
  local state, the handlers \<^verbatim>\<open>sendMessage\<close>, \<^verbatim>\<open>clearState\<close>, \<^verbatim>\<open>handleRemoveFile\<close>,
  \<^verbatim>\<open>handleFiles\<close>, and the three callbacks of the \<^verbatim>\<open>submitMessage\<close> mutation
  (\<^verbatim>\<open>onMutate\<close>, \<^verbatim>\<open>onError\<close>, \<^verbatim>\<open>onSettled\<close>).

  The component state (\<^verbatim>\<open>useState\<close> cells), the query client's cache and the JavaScript
  objects the cache points to are threaded explicitly through every function. Cached query
  data are objects on a store, addressed by reference, because the optimistic update assigns
  to a field of the object it was handed. Every effect that a property of the pipeline
  speaks about is also appended to a log, in the order in which the code performs it.
\<close>

subsection \<open>Data\<close>

text \<open>A chat message as the optimistic update builds it:
  \<^verbatim>\<open>{ ...newMessage, id, created_at, account_id, pending: true }\<close>, where \<^verbatim>\<open>newMessage\<close> is
  \<^verbatim>\<open>{ chatId, content }\<close>. Messages received from the server carry no \<^verbatim>\<open>pending\<close> field,
  which reads as false.\<close>

record chat_message =
  msg_chatId :: string
  msg_content :: string
  msg_id :: string
  created_at :: nat
  account_id :: "string option"
  pending :: bool

text \<open>A page of messages: the field \<^verbatim>\<open>result\<close>, and whatever else the page object holds
  (the spread \<^verbatim>\<open>...page\<close> carries it over unchanged).\<close>

record 'p page =
  result :: "chat_message list"
  page_rest :: 'p

text \<open>The data object of the paginated messages query; only its field \<^verbatim>\<open>pages\<close> is read
  and assigned by the component.\<close>

record 'p query_data =
  pages :: "'p page list"

type_synonym addr = nat

type_synonym query_key = "string list"

text \<open>One query of the query client: a reference to its data object (\<^verbatim>\<open>undefined\<close> when the
  query has no data), whether a fetch is in flight, and whether it has been invalidated.\<close>

record query =
  q_data :: "addr option"
  q_fetching :: bool
  q_invalidated :: bool

record media_attachment =
  att_id :: string
  preview_url :: string

text \<open>The props of the component: the chat, and the id of the own account (\<^verbatim>\<open>account?.id\<close>,
  \<^verbatim>\<open>undefined\<close> when there is no account).\<close>

record chat =
  chat_id :: string
  accepted :: bool
  created_by_account :: string

text \<open>The variables handed to \<^verbatim>\<open>submitMessage.mutate\<close>: \<^verbatim>\<open>{ chatId: chat.id, content }\<close>.\<close>

record variables =
  chatId :: string
  v_content :: string

text \<open>The context object \<^verbatim>\<open>onMutate\<close> returns: \<^verbatim>\<open>{ previousChatMessages }\<close>.\<close>

record mutation_context =
  previousChatMessages :: "addr option"

text \<open>The mutation that the \<^verbatim>\<open>submitMessage\<close> observer is running, if any; \<^verbatim>\<open>isLoading\<close> is true
  exactly while there is one. Its context is \<^verbatim>\<open>undefined\<close> until \<^verbatim>\<open>onMutate\<close> has returned.\<close>

record mutation =
  m_variables :: variables
  m_context :: "mutation_context option"

datatype outcome = Success | Failure

datatype js_error = TypeError

text \<open>The effects of the pipeline, logged in the order the code performs them.\<close>

datatype effect =
    DraftCleared
  | QueriesCancelled query_key
  | SnapshotRead query_key
  | CacheWritten query_key
  | QueriesInvalidated query_key
  | NetCreateMessage string string
  | NetAcceptChat string
  | NetUploadMedia
  | NetResponse outcome

record 'p state =
  content :: string
  attachment :: "media_attachment option"
  isUploading :: bool
  uploadProgress :: real
  resetFileKey :: int
  queries :: "query_key \<rightharpoonup> query"
  heap :: "addr \<Rightarrow> 'p query_data"
  submitMessage :: "mutation option"
  effects :: "effect list"

subsection \<open>JavaScript helpers\<close>

text \<open>\<^verbatim>\<open>Array.prototype.map\<close> with the callback's index argument.\<close>

definition array_map :: "('a \<Rightarrow> nat \<Rightarrow> 'b) \<Rightarrow> 'a list \<Rightarrow> 'b list" where
  "array_map f xs = map (\<lambda>(idx, x). f x idx) (enumerate 0 xs)"

text \<open>\<^verbatim>\<open>String(n)\<close> for a non-negative integer \<open>n\<close>: its decimal digits.\<close>

fun String :: "nat \<Rightarrow> string" where
  "String n =
     (if n < 10 then [''0123456789'' ! n]
      else String (n div 10) @ [''0123456789'' ! (n mod 10)])"

declare String.simps [simp del]

text \<open>\<^verbatim>\<open>const fileKeyGen = (): number => Math.floor((Math.random() * 0x10000))\<close>. The value of
  \<^verbatim>\<open>Math.random()\<close>, a number \<open>r\<close> with \<open>0 \<le> r < 1\<close>, is an argument (\<open>0x10000 = 65536\<close>; the
  product with a power of two is exact in floating point).\<close>

definition fileKeyGen :: "real \<Rightarrow> int" where
  "fileKeyGen r = \<lfloor>r * 65536\<rfloor>"

subsection \<open>The query client\<close>

text \<open>The operations of the query client that the component calls, with the behaviour the
  library documents for them. \<^verbatim>\<open>getQueryData\<close> matches the key exactly and returns the cached
  data object itself (a reference, not a copy); \<^verbatim>\<open>cancelQueries\<close> and
  \<^verbatim>\<open>invalidateQueries\<close> act on every query whose key starts with the given key.\<close>

definition log_effect :: "effect \<Rightarrow> 'p state \<Rightarrow> 'p state" where
  "log_effect e s = s\<lparr>effects := effects s @ [e]\<rparr>"

definition query_data_ref :: "query_key \<Rightarrow> 'p state \<Rightarrow> addr option" where
  "query_data_ref k s = (case queries s k of None \<Rightarrow> None | Some q \<Rightarrow> q_data q)"

definition getQueryData :: "query_key \<Rightarrow> 'p state \<Rightarrow> addr option \<times> 'p state" where
  "getQueryData k s = (query_data_ref k s, log_effect (SnapshotRead k) s)"

definition cancelQueries :: "query_key \<Rightarrow> 'p state \<Rightarrow> 'p state" where
  "cancelQueries k s =
     log_effect (QueriesCancelled k)
       (s\<lparr>queries := (\<lambda>k'. map_option
            (\<lambda>q. if prefix k k' then q\<lparr>q_fetching := False\<rparr> else q) (queries s k'))\<rparr>)"

definition invalidateQueries :: "query_key \<Rightarrow> 'p state \<Rightarrow> 'p state" where
  "invalidateQueries k s =
     log_effect (QueriesInvalidated k)
       (s\<lparr>queries := (\<lambda>k'. map_option
            (\<lambda>q. if prefix k k' then q\<lparr>q_invalidated := True\<rparr> else q) (queries s k'))\<rparr>)"

text \<open>Storing data in a query: \<^verbatim>\<open>undefined\<close> is ignored; otherwise the query (created when
  it does not exist) points to the data and is no longer invalidated.\<close>

definition store_query_data :: "query_key \<Rightarrow> addr option \<Rightarrow> 'p state \<Rightarrow> 'p state" where
  "store_query_data k d s =
     (case d of
        None \<Rightarrow> s
      | Some a \<Rightarrow>
          s\<lparr>queries := (queries s)(k \<mapsto>
              (case queries s k of
                 None \<Rightarrow> \<lparr>q_data = Some a, q_fetching = False, q_invalidated = False\<rparr>
               | Some q \<Rightarrow> q\<lparr>q_data := Some a, q_invalidated := False\<rparr>))\<rparr>)"

text \<open>\<^verbatim>\<open>setQueryData(key, data)\<close> with a value.\<close>

definition setQueryData :: "query_key \<Rightarrow> addr option \<Rightarrow> 'p state \<Rightarrow> 'p state" where
  "setQueryData k d s = store_query_data k d (log_effect (CacheWritten k) s)"

text \<open>\<^verbatim>\<open>setQueryData(key, updater)\<close> with an updater function: the updater is applied to the
  current data of the query (\<^verbatim>\<open>undefined\<close> when there is none); an exception it throws
  propagates to the caller.\<close>

definition setQueryDataWith ::
  "query_key \<Rightarrow> (addr option \<Rightarrow> 'p state \<Rightarrow> (js_error + addr option) \<times> 'p state)
     \<Rightarrow> 'p state \<Rightarrow> (js_error + unit) \<times> 'p state" where
  "setQueryDataWith k updater s =
     (let s1 = log_effect (CacheWritten k) s in
      case updater (query_data_ref k s1) s1 of
        (Inl e, s2) \<Rightarrow> (Inl e, s2)
      | (Inr d, s2) \<Rightarrow> (Inr (), store_query_data k d s2))"

subsection \<open>The component\<close>

definition messages_key :: "chat \<Rightarrow> query_key" where
  "messages_key c = [''chats'', ''messages'', chat_id c]"

text \<open>\<^verbatim>\<open>const needsAcceptance = !chat.accepted && chat.created_by_account !== account?.id\<close>\<close>

definition needsAcceptance :: "chat \<Rightarrow> string option \<Rightarrow> bool" where
  "needsAcceptance c account \<longleftrightarrow> \<not> accepted c \<and> Some (created_by_account c) \<noteq> account"

text \<open>\<^verbatim>\<open>const isSubmitDisabled = content.length === 0 && !attachment\<close>\<close>

definition isSubmitDisabled :: "'p state \<Rightarrow> bool" where
  "isSubmitDisabled s \<longleftrightarrow> length (content s) = 0 \<and> attachment s = None"

definition isLoading :: "'p state \<Rightarrow> bool" where
  "isLoading s \<longleftrightarrow> submitMessage s \<noteq> None"

text \<open>\<^verbatim>\<open>clearState\<close>; the argument \<open>r\<close> is the value \<^verbatim>\<open>Math.random()\<close> returns inside
  \<^verbatim>\<open>fileKeyGen\<close>.\<close>

definition clearState :: "real \<Rightarrow> 'p state \<Rightarrow> 'p state" where
  "clearState r s =
     log_effect DraftCleared
       (s\<lparr>content := '''', attachment := None, isUploading := False, uploadProgress := 0,
          resetFileKey := fileKeyGen r\<rparr>)"

text \<open>The message object that the optimistic update builds; \<open>t_id\<close> and \<open>t_created\<close> are the
  readings of the clock by the two \<^verbatim>\<open>new Date()\<close>.\<close>

definition pending_message ::
  "string option \<Rightarrow> nat \<Rightarrow> nat \<Rightarrow> variables \<Rightarrow> chat_message" where
  "pending_message account t_id t_created newMessage =
     \<lparr>msg_chatId = chatId newMessage, msg_content = v_content newMessage,
      msg_id = String t_id, created_at = t_created, account_id = account, pending = True\<rparr>"

text \<open>The updater passed to \<^verbatim>\<open>setQueryData\<close> in \<^verbatim>\<open>onMutate\<close>:
  \<^verbatim>\<open>const newResult = prevResult; newResult.pages = prevResult.pages.map(...); return newResult;\<close>
  It assigns the new array of pages to the field \<^verbatim>\<open>pages\<close> of the object it received, and
  returns that same object. Reading \<^verbatim>\<open>prevResult.pages\<close> when \<^verbatim>\<open>prevResult\<close> is
  \<^verbatim>\<open>undefined\<close> throws a \<^verbatim>\<open>TypeError\<close>.\<close>

definition optimistic_updater ::
  "string option \<Rightarrow> nat \<Rightarrow> nat \<Rightarrow> variables \<Rightarrow> addr option \<Rightarrow> 'p state
     \<Rightarrow> (js_error + addr option) \<times> 'p state" where
  "optimistic_updater account t_id t_created newMessage prevResult s =
     (case prevResult of
        None \<Rightarrow> (Inl TypeError, s)
      | Some newResult \<Rightarrow>
          (Inr (Some newResult),
           s\<lparr>heap := (heap s)(newResult := (heap s newResult)\<lparr>pages :=
               array_map
                 (\<lambda>page idx.
                    if idx = 0
                    then page\<lparr>result := result page
                           @ [pending_message account t_id t_created newMessage]\<rparr>
                    else page)
                 (pages (heap s newResult))\<rparr>)\<rparr>))"

text \<open>\<^verbatim>\<open>onMutate\<close>: clear the composer, cancel outgoing refetches, read the snapshot, update the
  cache optimistically, return the context.\<close>

definition onMutate ::
  "chat \<Rightarrow> string option \<Rightarrow> nat \<Rightarrow> nat \<Rightarrow> real \<Rightarrow> variables \<Rightarrow> 'p state
     \<Rightarrow> (js_error + mutation_context) \<times> 'p state" where
  "onMutate c account t_id t_created r newMessage s =
     (let s1 = clearState r s;
          s2 = cancelQueries (messages_key c) s1;
          (previous, s3) = getQueryData (messages_key c) s2
      in case setQueryDataWith (messages_key c)
                (optimistic_updater account t_id t_created newMessage) s3 of
           (Inl e, s4) \<Rightarrow> (Inl e, s4)
         | (Inr _, s4) \<Rightarrow> (Inr \<lparr>previousChatMessages = previous\<rparr>, s4))"

text \<open>\<^verbatim>\<open>onError\<close>: \<^verbatim>\<open>queryClient.setQueryData(key, context.previousChatMessages)\<close>. Reading the
  field of an \<^verbatim>\<open>undefined\<close> context throws.\<close>

definition onError ::
  "chat \<Rightarrow> mutation_context option \<Rightarrow> 'p state \<Rightarrow> (js_error + unit) \<times> 'p state" where
  "onError c context s =
     (case context of
        None \<Rightarrow> (Inl TypeError, s)
      | Some ctx \<Rightarrow> (Inr (), setQueryData (messages_key c) (previousChatMessages ctx) s))"

text \<open>\<^verbatim>\<open>onSettled\<close>: \<^verbatim>\<open>queryClient.invalidateQueries(key)\<close>.\<close>

definition onSettled :: "chat \<Rightarrow> 'p state \<Rightarrow> 'p state" where
  "onSettled c s = invalidateQueries (messages_key c) s"

text \<open>Modelled from the spec: \<^verbatim>\<open>createChatMessage\<close> comes from the hook \<^verbatim>\<open>useChat\<close>,
  which is not among the sources. Following the table of network operations,
  \<^verbatim>\<open>createChatMessage(chatId, content)\<close> issues the create-message call with the two arguments
  it is given; the outcome of the call arrives later.\<close>

definition createChatMessage :: "string \<Rightarrow> string \<Rightarrow> 'p state \<Rightarrow> 'p state" where
  "createChatMessage cid text s = log_effect (NetCreateMessage cid text) s"

text \<open>Modelled from the spec: \<^verbatim>\<open>acceptChat\<close> comes from the hook \<^verbatim>\<open>useChat\<close> as well.
  Following the table of network operations, \<^verbatim>\<open>acceptChat.mutate()\<close> issues the accept-chat
  call for the chat.\<close>

definition acceptChat_mutate :: "chat \<Rightarrow> 'p state \<Rightarrow> 'p state" where
  "acceptChat_mutate c s = log_effect (NetAcceptChat (chat_id c)) s"

text \<open>The failure path of a mutation: \<^verbatim>\<open>onError\<close> is called with the context, then
  \<^verbatim>\<open>onSettled\<close>; when \<^verbatim>\<open>onError\<close> itself throws, \<^verbatim>\<open>onSettled\<close> is not reached. The mutation is
  over either way.\<close>

definition mutation_failed :: "chat \<Rightarrow> mutation_context option \<Rightarrow> 'p state \<Rightarrow> 'p state" where
  "mutation_failed c context s =
     (case onError c context s of
        (Inl e, s1) \<Rightarrow> s1\<lparr>submitMessage := None\<rparr>
      | (Inr _, s1) \<Rightarrow> (onSettled c s1)\<lparr>submitMessage := None\<rparr>)"

text \<open>\<^verbatim>\<open>submitMessage.mutate(variables)\<close>, taken together with the steps it schedules: the
  mutation starts loading and runs \<^verbatim>\<open>onMutate\<close>; then the mutation function \<^verbatim>\<open>({ chatId, content }) => createChatMessage(chatId, content)\<close>
  issues the network call, whose outcome arrives later (\<open>settle\<close> below). When \<^verbatim>\<open>onMutate\<close>
  throws, the mutation function is not called and the mutation fails at once.\<close>

definition submitMessage_mutate ::
  "chat \<Rightarrow> string option \<Rightarrow> nat \<Rightarrow> nat \<Rightarrow> real \<Rightarrow> variables \<Rightarrow> 'p state \<Rightarrow> 'p state" where
  "submitMessage_mutate c account t_id t_created r vars s =
     (case onMutate c account t_id t_created r vars
             (s\<lparr>submitMessage := Some \<lparr>m_variables = vars, m_context = None\<rparr>\<rparr>) of
        (Inl e, s1) \<Rightarrow> mutation_failed c None s1
      | (Inr ctx, s1) \<Rightarrow>
          createChatMessage (chatId vars) (v_content vars)
            (s1\<lparr>submitMessage := Some \<lparr>m_variables = vars, m_context = Some ctx\<rparr>\<rparr>))"

text \<open>The outcome of the create-message call arrives: on failure \<^verbatim>\<open>onError\<close> and then
  \<^verbatim>\<open>onSettled\<close> run, on success \<^verbatim>\<open>onSettled\<close> alone. Without a running mutation there is no
  call whose outcome could arrive.\<close>

definition settle :: "chat \<Rightarrow> outcome \<Rightarrow> 'p state \<Rightarrow> 'p state" where
  "settle c out s =
     (case submitMessage s of
        None \<Rightarrow> s
      | Some m \<Rightarrow>
          (case out of
             Success \<Rightarrow> (onSettled c (log_effect (NetResponse Success) s))\<lparr>submitMessage := None\<rparr>
           | Failure \<Rightarrow> mutation_failed c (m_context m) (log_effect (NetResponse Failure) s)))"

text \<open>\<^verbatim>\<open>sendMessage\<close>, taken together with the steps of the mutation it starts: the handler is
  called in the render of the state \<open>s\<close>, so that its guard reads \<open>s\<close>, and the steps of the
  mutation (\<^verbatim>\<open>onMutate\<close>, then the mutation function) run right after it, before any other
  event. The handler itself returns before those steps, and calls \<^verbatim>\<open>acceptChat.mutate()\<close>
  before them; here the accept-chat call is logged after them. The call alone, in any
  render, and the steps alone are \<open>sendMessage_call\<close> and \<open>submitMessage_continue\<close> below.
  The object \<^verbatim>\<open>params\<close> (content and \<^verbatim>\<open>media_id: attachment && attachment.id\<close>) is built and
  never used.\<close>

definition sendMessage ::
  "chat \<Rightarrow> string option \<Rightarrow> nat \<Rightarrow> nat \<Rightarrow> real \<Rightarrow> 'p state \<Rightarrow> 'p state" where
  "sendMessage c account t_id t_created r s =
     (if \<not> isSubmitDisabled s \<and> \<not> isLoading s then
        let params = (content s, map_option att_id (attachment s));
            s1 = submitMessage_mutate c account t_id t_created r
                   \<lparr>chatId = chat_id c, v_content = content s\<rparr> s
        in acceptChat_mutate c s1
      else s)"

text \<open>\<^verbatim>\<open>handleContentChange\<close>, \<^verbatim>\<open>insertLine\<close>, \<^verbatim>\<open>handleRemoveFile\<close>, and \<^verbatim>\<open>handleFiles\<close> with the
  two continuations of its upload promise.\<close>

definition handleContentChange :: "string \<Rightarrow> 'p state \<Rightarrow> 'p state" where
  "handleContentChange v s = s\<lparr>content := v\<rparr>"

definition insertLine :: "'p state \<Rightarrow> 'p state" where
  "insertLine s = s\<lparr>content := content s @ [CHR 0x0A]\<rparr>"

definition handleRemoveFile :: "real \<Rightarrow> 'p state \<Rightarrow> 'p state" where
  "handleRemoveFile r s = s\<lparr>attachment := None, resetFileKey := fileKeyGen r\<rparr>"

definition handleFiles :: "'p state \<Rightarrow> 'p state" where
  "handleFiles s = log_effect NetUploadMedia (s\<lparr>isUploading := True\<rparr>)"

definition handleFiles_then :: "media_attachment \<Rightarrow> 'p state \<Rightarrow> 'p state" where
  "handleFiles_then response_data s = s\<lparr>attachment := Some response_data, isUploading := False\<rparr>"

definition handleFiles_catch :: "'p state \<Rightarrow> 'p state" where
  "handleFiles_catch s = s\<lparr>isUploading := False\<rparr>"

subsection \<open>One render, and the steps that run after the handler has returned\<close>

text \<open>The body of \<^verbatim>\<open>sendMessage\<close> does not read the state cells: \<^verbatim>\<open>content\<close>, \<^verbatim>\<open>attachment\<close>
  and \<^verbatim>\<open>submitMessage.isLoading\<close> are constants of the render in which the handler was
  created, and stay what they are until the component renders again.\<close>

record render =
  r_content :: string
  r_attachment :: "media_attachment option"
  r_isLoading :: bool

text \<open>The constants of a render of the component in state \<open>s\<close>.\<close>

definition render_of :: "'p state \<Rightarrow> render" where
  "render_of s = \<lparr>r_content = content s, r_attachment = attachment s, r_isLoading = isLoading s\<rparr>"

text \<open>\<^verbatim>\<open>const isSubmitDisabled = content.length === 0 && !attachment\<close>, on the constants of a
  render.\<close>

definition r_isSubmitDisabled :: "render \<Rightarrow> bool" where
  "r_isSubmitDisabled rd \<longleftrightarrow> length (r_content rd) = 0 \<and> r_attachment rd = None"

text \<open>One call of \<^verbatim>\<open>sendMessage\<close>, from its first line to its return, in the render \<open>rd\<close>:
  the guard is evaluated on the constants of the render; \<^verbatim>\<open>submitMessage.mutate\<close> starts the
  mutation, which is loading from then on, and returns; \<^verbatim>\<open>acceptChat.mutate()\<close> is called.
  \<^verbatim>\<open>onMutate\<close> is an \<^verbatim>\<open>async\<close> function that awaits \<^verbatim>\<open>cancelQueries\<close>: neither it nor the
  mutation function has run when \<^verbatim>\<open>sendMessage\<close> returns. The result is the state at the
  return and the variables of the mutation that was started, if one was.\<close>

definition sendMessage_call :: "render \<Rightarrow> chat \<Rightarrow> 'p state \<Rightarrow> 'p state \<times> variables option" where
  "sendMessage_call rd c s =
     (if \<not> r_isSubmitDisabled rd \<and> \<not> r_isLoading rd then
        let params = (r_content rd, map_option att_id (r_attachment rd));
            vars = \<lparr>chatId = chat_id c, v_content = r_content rd\<rparr>;
            s1 = s\<lparr>submitMessage := Some \<lparr>m_variables = vars, m_context = None\<rparr>\<rparr>
        in (acceptChat_mutate c s1, Some vars)
      else (s, None))"

text \<open>The steps of a started mutation, which run after the handler has returned: \<^verbatim>\<open>onMutate\<close>,
  and then the mutation function, which issues the network call; when \<^verbatim>\<open>onMutate\<close> throws,
  the mutation function is not called and the mutation fails at once. The outcome of the
  network call arrives later (\<open>settle\<close>).\<close>

definition submitMessage_continue ::
  "chat \<Rightarrow> string option \<Rightarrow> nat \<Rightarrow> nat \<Rightarrow> real \<Rightarrow> variables \<Rightarrow> 'p state \<Rightarrow> 'p state" where
  "submitMessage_continue c account t_id t_created r vars s =
     (case onMutate c account t_id t_created r vars s of
        (Inl e, s1) \<Rightarrow> mutation_failed c None s1
      | (Inr ctx, s1) \<Rightarrow>
          createChatMessage (chatId vars) (v_content vars)
            (s1\<lparr>submitMessage := Some \<lparr>m_variables = vars, m_context = Some ctx\<rparr>\<rparr>))"

subsection \<open>Observations\<close>

text \<open>Reading the pages of a chat from the cache: the field \<^verbatim>\<open>pages\<close> of the data object
  the query points to.\<close>

definition cached_pages :: "query_key \<Rightarrow> 'p state \<Rightarrow> 'p page list option" where
  "cached_pages k s = map_option (\<lambda>a. pages (heap s a)) (query_data_ref k s)"

fun is_create_call :: "effect \<Rightarrow> bool" where
  "is_create_call (NetCreateMessage _ _) = True"
| "is_create_call _ = False"

fun is_accept_call :: "effect \<Rightarrow> bool" where
  "is_accept_call (NetAcceptChat _) = True"
| "is_accept_call _ = False"

fun is_response :: "effect \<Rightarrow> bool" where
  "is_response (NetResponse _) = True"
| "is_response _ = False"

text \<open>The effects performed between two states of one run.\<close>

definition effects_since :: "'p state \<Rightarrow> 'p state \<Rightarrow> effect list" where
  "effects_since s s' = drop (length (effects s)) (effects s')"

subsection \<open>Sample inputs\<close>

definition sample_chat :: chat where
  "sample_chat = \<lparr>chat_id = ''7'', accepted = True, created_by_account = ''alice''\<rparr>"

definition older_message :: chat_message where
  "older_message =
     \<lparr>msg_chatId = ''7'', msg_content = ''hello'', msg_id = ''41'', created_at = 1000,
      account_id = Some ''bob'', pending = False\<rparr>"

text \<open>A composer holding the draft \<open>hi\<close>, on a chat whose messages are not cached.\<close>

definition uncached_draft :: "unit state" where
  "uncached_draft =
     \<lparr>content = ''hi'', attachment = None, isUploading = False, uploadProgress = 0,
      resetFileKey = 5, queries = Map.empty, heap = (\<lambda>a. \<lparr>pages = []\<rparr>),
      submitMessage = None, effects = []\<rparr>"

text \<open>The same draft on a chat with one cached page that holds one older message; a
  background refetch of the page is in flight.\<close>

definition cached_draft :: "unit state" where
  "cached_draft =
     uncached_draft
       \<lparr>queries := [[''chats'', ''messages'', ''7''] \<mapsto>
            \<lparr>q_data = Some 0, q_fetching = True, q_invalidated = False\<rparr>],
        heap := (\<lambda>a. \<lparr>pages = []\<rparr>)
            (0 := \<lparr>pages = [\<lparr>result = [older_message], page_rest = ()\<rparr>]\<rparr>)\<rparr>"

section \<open>Properties\<close>

subsection \<open>Unfolding the pipeline\<close>

lemmas client_defs =
  log_effect_def query_data_ref_def getQueryData_def cancelQueries_def invalidateQueries_def
  store_query_data_def setQueryData_def setQueryDataWith_def

lemmas pipeline_defs =
  clearState_def optimistic_updater_def onMutate_def onError_def onSettled_def
  createChatMessage_def acceptChat_mutate_def mutation_failed_def submitMessage_mutate_def

lemmas sample_defs =
  sample_chat_def older_message_def uncached_draft_def cached_draft_def messages_key_def

lemma enumerate_map_rest:
  "map (\<lambda>(idx, x). if idx = 0 then g x else x) (enumerate (Suc n) xs) = xs"
  by (induction xs arbitrary: n) auto

lemma array_map_first:
  "array_map (\<lambda>page idx. if idx = 0 then g page else page) (p # ps) = g p # ps"
  by (simp add: array_map_def enumerate_map_rest)

lemma array_map_Nil: "array_map f [] = []"
  by (simp add: array_map_def)

lemma query_data_ref_cases:
  "query_data_ref k s = None \<or> (\<exists>q a. queries s k = Some q \<and> q_data q = Some a)"
  by (auto simp: query_data_ref_def split: option.splits)

text \<open>A send that the guard rejects changes nothing.\<close>

lemma sendMessage_rejected:
  "isSubmitDisabled s \<or> isLoading s \<Longrightarrow> sendMessage c account t_id t_created r s = s"
  by (auto simp: sendMessage_def)

text \<open>A send that passes the guard, on a chat without cached data: the updater throws, the
  mutation is over, and no create-message call is issued.\<close>

lemma sendMessage_uncached:
  assumes "\<not> isSubmitDisabled s" and "\<not> isLoading s"
    and "query_data_ref (messages_key c) s = None"
  shows "sendMessage c account t_id t_created r s =
     s\<lparr>content := '''', attachment := None, isUploading := False, uploadProgress := 0,
       resetFileKey := fileKeyGen r,
       queries := (\<lambda>k'. map_option
            (\<lambda>q. if prefix (messages_key c) k' then q\<lparr>q_fetching := False\<rparr> else q)
            (queries s k')),
       submitMessage := None,
       effects := effects s @ [DraftCleared, QueriesCancelled (messages_key c),
          SnapshotRead (messages_key c), CacheWritten (messages_key c),
          NetAcceptChat (chat_id c)]\<rparr>"
  using assms
  by (simp add: sendMessage_def pipeline_defs client_defs Let_def split: option.splits)

text \<open>A send that passes the guard, on a chat with cached data at address \<open>a\<close>.\<close>

lemma sendMessage_cached:
  assumes "\<not> isSubmitDisabled s" and "\<not> isLoading s"
    and "queries s (messages_key c) = Some q" and "q_data q = Some a"
  shows "sendMessage c account t_id t_created r s =
     s\<lparr>content := '''', attachment := None, isUploading := False, uploadProgress := 0,
       resetFileKey := fileKeyGen r,
       queries := (\<lambda>k'. map_option
            (\<lambda>q. if prefix (messages_key c) k' then q\<lparr>q_fetching := False\<rparr> else q)
            (queries s k'))
          (messages_key c \<mapsto>
             q\<lparr>q_fetching := False, q_data := Some a, q_invalidated := False\<rparr>),
       heap := (heap s)(a := (heap s a)\<lparr>pages :=
               array_map
                 (\<lambda>page idx.
                    if idx = 0
                    then page\<lparr>result := result page
                           @ [pending_message account t_id t_created
                                \<lparr>chatId = chat_id c, v_content = content s\<rparr>]\<rparr>
                    else page)
                 (pages (heap s a))\<rparr>),
       submitMessage := Some \<lparr>m_variables = \<lparr>chatId = chat_id c, v_content = content s\<rparr>,
           m_context = Some \<lparr>previousChatMessages = Some a\<rparr>\<rparr>,
       effects := effects s @ [DraftCleared, QueriesCancelled (messages_key c),
          SnapshotRead (messages_key c), CacheWritten (messages_key c),
          NetCreateMessage (chat_id c) (content s), NetAcceptChat (chat_id c)]\<rparr>"
  using assms
  by (simp add: sendMessage_def pipeline_defs client_defs Let_def split: option.splits)

subsection \<open>The guard of \<^verbatim>\<open>sendMessage\<close>\<close>

text \<open>C4 (no-op guard): a call of \<^verbatim>\<open>sendMessage\<close> with empty content and no attachment
  returns the state it was given: the query cache, the store, the composer and the log of
  effects (hence the network calls issued) are all unchanged.\<close>

theorem empty_send_is_noop:
  assumes "content s = ''''" and "attachment s = None"
  shows "sendMessage c account t_id t_created r s = s"
  using assms by (simp add: sendMessage_def isSubmitDisabled_def)

theorem empty_send_is_noop_witness:
  "content (handleContentChange '''' cached_draft) = ''''
   \<and> attachment (handleContentChange '''' cached_draft) = None
   \<and> sendMessage sample_chat (Some ''alice'') 1700 1701 (1/2)
         (handleContentChange '''' cached_draft)
       = handleContentChange '''' cached_draft"
  using empty_send_is_noop [of "handleContentChange '''' cached_draft"
      sample_chat "Some ''alice''" 1700 1701 "1/2"]
  by (simp add: handleContentChange_def cached_draft_def uncached_draft_def)

subsection \<open>The optimistic insert\<close>

lemma cached_draft_guard: "\<not> isSubmitDisabled cached_draft" "\<not> isLoading cached_draft"
  by (simp_all add: isSubmitDisabled_def isLoading_def sample_defs)

lemma cached_draft_ref: "query_data_ref (messages_key sample_chat) cached_draft = Some 0"
  by (simp add: query_data_ref_def sample_defs)

lemma cached_draft_pages:
  "pages (heap cached_draft 0) = [\<lparr>result = [older_message], page_rest = ()\<rparr>]"
  by (simp add: sample_defs)

lemma sendMessage_call_rejected:
  "r_isSubmitDisabled rd \<or> r_isLoading rd \<Longrightarrow> sendMessage_call rd c s = (s, None)"
  by (auto simp: sendMessage_call_def)

text \<open>A call that passes the guard starts the mutation and issues the accept-chat call; it
  touches neither the composer nor the cache.\<close>

lemma sendMessage_call_accepted:
  assumes "\<not> r_isSubmitDisabled rd" and "\<not> r_isLoading rd"
  shows "sendMessage_call rd c s =
     (s\<lparr>submitMessage := Some \<lparr>m_variables = \<lparr>chatId = chat_id c, v_content = r_content rd\<rparr>,
                                m_context = None\<rparr>,
        effects := effects s @ [NetAcceptChat (chat_id c)]\<rparr>,
      Some \<lparr>chatId = chat_id c, v_content = r_content rd\<rparr>)"
  using assms
  by (simp add: sendMessage_call_def acceptChat_mutate_def log_effect_def Let_def)

text \<open>The steps of a started mutation on a chat with cached data at address \<open>a\<close>.\<close>

lemma submitMessage_continue_cached:
  assumes "queries s (messages_key c) = Some q" and "q_data q = Some a"
  shows "submitMessage_continue c account t_id t_created r vars s =
     s\<lparr>content := '''', attachment := None, isUploading := False, uploadProgress := 0,
       resetFileKey := fileKeyGen r,
       queries := (\<lambda>k'. map_option
            (\<lambda>q. if prefix (messages_key c) k' then q\<lparr>q_fetching := False\<rparr> else q)
            (queries s k'))
          (messages_key c \<mapsto>
             q\<lparr>q_fetching := False, q_data := Some a, q_invalidated := False\<rparr>),
       heap := (heap s)(a := (heap s a)\<lparr>pages :=
               array_map
                 (\<lambda>page idx.
                    if idx = 0
                    then page\<lparr>result := result page
                           @ [pending_message account t_id t_created vars]\<rparr>
                    else page)
                 (pages (heap s a))\<rparr>),
       submitMessage := Some \<lparr>m_variables = vars,
           m_context = Some \<lparr>previousChatMessages = Some a\<rparr>\<rparr>,
       effects := effects s @ [DraftCleared, QueriesCancelled (messages_key c),
          SnapshotRead (messages_key c), CacheWritten (messages_key c),
          NetCreateMessage (chatId vars) (v_content vars)]\<rparr>"
  using assms
  by (simp add: submitMessage_continue_def pipeline_defs client_defs Let_def
      split: option.splits)

text \<open>\<^verbatim>\<open>submitMessage.mutate\<close> is the start of the mutation followed by its steps.\<close>

lemma submitMessage_mutate_continue:
  "submitMessage_mutate c account t_id t_created r vars s =
     submitMessage_continue c account t_id t_created r vars
       (s\<lparr>submitMessage := Some \<lparr>m_variables = vars, m_context = None\<rparr>\<rparr>)"
  by (simp add: submitMessage_mutate_def submitMessage_continue_def)

text \<open>C2, as the code has it (visibility by appending, once \<^verbatim>\<open>onMutate\<close> has run): take a call
  of \<^verbatim>\<open>sendMessage\<close> that passes the guard of its render, on a chat whose cached data has a
  first page \<open>p\<close>. When the call returns, a mutation has been started and the cached pages
  are what they were: the new message is not there yet. After the steps of the mutation
  have run, the new message is the last entry of the first page's \<^verbatim>\<open>result\<close>, after the
  entries that were there, and the other pages are unchanged; the new message is pending,
  its id is the decimal rendering of the clock, and its content is the content of the
  render. The cache is written before the create-message call is issued, no outcome of a
  network call has arrived, and the submission is loading.\<close>

theorem optimistic_insert_appends:
  assumes "\<not> r_isSubmitDisabled rd" and "\<not> r_isLoading rd"
    and "query_data_ref (messages_key c) s = Some a" and "pages (heap s a) = p # ps"
  shows "let vars = \<lparr>chatId = chat_id c, v_content = r_content rd\<rparr>;
             s1 = fst (sendMessage_call rd c s);
             s2 = submitMessage_continue c account t_id t_created r vars s1;
             new = pending_message account t_id t_created vars
         in snd (sendMessage_call rd c s) = Some vars
            \<and> cached_pages (messages_key c) s1 = Some (p # ps)
            \<and> cached_pages (messages_key c) s2 = Some (p\<lparr>result := result p @ [new]\<rparr> # ps)
            \<and> pending new \<and> msg_id new = String t_id \<and> msg_content new = r_content rd
            \<and> effects_since s1 s2 =
                 [DraftCleared, QueriesCancelled (messages_key c), SnapshotRead (messages_key c),
                  CacheWritten (messages_key c), NetCreateMessage (chat_id c) (r_content rd)]
            \<and> filter is_response (effects_since s s2) = []
            \<and> isLoading s2"
proof -
  let ?vars = "\<lparr>chatId = chat_id c, v_content = r_content rd\<rparr>"
  let ?s1 = "s\<lparr>submitMessage := Some \<lparr>m_variables = ?vars, m_context = None\<rparr>,
               effects := effects s @ [NetAcceptChat (chat_id c)]\<rparr>"
  from assms(3) obtain q where q: "queries s (messages_key c) = Some q" "q_data q = Some a"
    by (auto simp: query_data_ref_def split: option.splits)
  then have q1: "queries ?s1 (messages_key c) = Some q"
    by simp
  have call: "sendMessage_call rd c s = (?s1, Some ?vars)"
    by (rule sendMessage_call_accepted [OF assms(1,2)])
  have before: "cached_pages (messages_key c) ?s1 = Some (p # ps)"
    using q assms(4) by (simp add: cached_pages_def query_data_ref_def)
  note cont = submitMessage_continue_cached [OF q1 q(2), of account t_id t_created r ?vars]
  have after: "cached_pages (messages_key c)
        (submitMessage_continue c account t_id t_created r ?vars ?s1)
      = Some (p\<lparr>result := result p @ [pending_message account t_id t_created ?vars]\<rparr> # ps)"
    by (simp add: cont cached_pages_def query_data_ref_def assms(4) array_map_first)
  have eff: "effects (submitMessage_continue c account t_id t_created r ?vars ?s1)
      = effects s @ [NetAcceptChat (chat_id c), DraftCleared, QueriesCancelled (messages_key c),
          SnapshotRead (messages_key c), CacheWritten (messages_key c),
          NetCreateMessage (chat_id c) (r_content rd)]"
    by (simp add: cont)
  have loading: "isLoading (submitMessage_continue c account t_id t_created r ?vars ?s1)"
    by (simp add: cont isLoading_def)
  show ?thesis
    unfolding Let_def call fst_conv snd_conv
    using before after loading
    by (simp add: eff effects_since_def pending_message_def)
qed

theorem optimistic_insert_appends_witness:
  "\<not> r_isSubmitDisabled (render_of cached_draft) \<and> \<not> r_isLoading (render_of cached_draft)
   \<and> query_data_ref (messages_key sample_chat) cached_draft = Some 0
   \<and> pages (heap cached_draft 0) = [\<lparr>result = [older_message], page_rest = ()\<rparr>]
   \<and> snd (sendMessage_call (render_of cached_draft) sample_chat cached_draft)
       = Some \<lparr>chatId = ''7'', v_content = ''hi''\<rparr>
   \<and> cached_pages (messages_key sample_chat)
       (fst (sendMessage_call (render_of cached_draft) sample_chat cached_draft))
     = Some [\<lparr>result = [older_message], page_rest = ()\<rparr>]
   \<and> cached_pages (messages_key sample_chat)
       (submitMessage_continue sample_chat (Some ''alice'') 1700 1701 (1/2)
          \<lparr>chatId = ''7'', v_content = ''hi''\<rparr>
          (fst (sendMessage_call (render_of cached_draft) sample_chat cached_draft)))
     = Some [\<lparr>result = [older_message,
                \<lparr>msg_chatId = ''7'', msg_content = ''hi'', msg_id = ''1700'',
                 created_at = 1701, account_id = Some ''alice'', pending = True\<rparr>],
              page_rest = ()\<rparr>]
   \<and> isLoading
       (submitMessage_continue sample_chat (Some ''alice'') 1700 1701 (1/2)
          \<lparr>chatId = ''7'', v_content = ''hi''\<rparr>
          (fst (sendMessage_call (render_of cached_draft) sample_chat cached_draft)))"
proof -
  have g: "\<not> r_isSubmitDisabled (render_of cached_draft)" "\<not> r_isLoading (render_of cached_draft)"
    by (simp_all add: r_isSubmitDisabled_def render_of_def isLoading_def sample_defs)
  have str: "String 1700 = ''1700''"
    by (simp add: String.simps)
  have cnt: "r_content (render_of cached_draft) = ''hi''" "chat_id sample_chat = ''7''"
    by (simp_all add: render_of_def sample_defs)
  show ?thesis
    using optimistic_insert_appends [OF g cached_draft_ref cached_draft_pages,
        of "Some ''alice''" 1700 1701 "1/2"]
    by (simp add: Let_def pending_message_def str cnt g cached_draft_ref cached_draft_pages)
qed

text \<open>C2, as stated (the new message is put at the front of the first page, and is there
  when the send returns), fails on a first page that holds one older message: when
  \<^verbatim>\<open>sendMessage\<close> returns, the page holds the older message alone; after the steps of the
  mutation have run, the entry at the front is still the older message, which is not
  pending, and the new message is the last entry.\<close>

theorem optimistic_insert_not_prepended:
  "cached_pages (messages_key sample_chat)
       (fst (sendMessage_call (render_of cached_draft) sample_chat cached_draft))
     = Some [\<lparr>result = [older_message], page_rest = ()\<rparr>]
   \<and> cached_pages (messages_key sample_chat)
       (submitMessage_continue sample_chat (Some ''alice'') 1700 1701 (1/2)
          \<lparr>chatId = ''7'', v_content = ''hi''\<rparr>
          (fst (sendMessage_call (render_of cached_draft) sample_chat cached_draft)))
     = Some [\<lparr>result = [older_message,
                pending_message (Some ''alice'') 1700 1701
                  \<lparr>chatId = ''7'', v_content = ''hi''\<rparr>],
              page_rest = ()\<rparr>]
   \<and> older_message
       \<noteq> pending_message (Some ''alice'') 1700 1701 \<lparr>chatId = ''7'', v_content = ''hi''\<rparr>
   \<and> \<not> pending older_message"
  by (simp add: sendMessage_call_def submitMessage_continue_def render_of_def
      r_isSubmitDisabled_def isLoading_def pipeline_defs client_defs sample_defs
      cached_pages_def array_map_def pending_message_def Let_def)

text \<open>C3 (a send on a chat without cached data), evaluated on the draft \<open>hi\<close> with an empty
  query cache: the send passes the guard, the updater of the optimistic insert reads
  \<^verbatim>\<open>prevResult.pages\<close> of \<^verbatim>\<open>undefined\<close> and \<^verbatim>\<open>onMutate\<close> ends with a \<^verbatim>\<open>TypeError\<close>. The data
  of the cache is unchanged, but the composer has been cleared and no create-message call
  is issued.\<close>

theorem uncached_insert_throws:
  "\<not> isSubmitDisabled uncached_draft \<and> \<not> isLoading uncached_draft
   \<and> query_data_ref (messages_key sample_chat) uncached_draft = None
   \<and> fst (onMutate sample_chat (Some ''alice'') 1700 1701 (1/2)
          \<lparr>chatId = ''7'', v_content = ''hi''\<rparr> uncached_draft) = Inl TypeError
   \<and> filter is_create_call
       (effects (sendMessage sample_chat (Some ''alice'') 1700 1701 (1/2) uncached_draft)) = []
   \<and> content (sendMessage sample_chat (Some ''alice'') 1700 1701 (1/2) uncached_draft) = ''''
   \<and> queries (sendMessage sample_chat (Some ''alice'') 1700 1701 (1/2) uncached_draft)
       = queries uncached_draft"
  by (simp add: Let_def sendMessage_def pipeline_defs client_defs sample_defs
      isSubmitDisabled_def isLoading_def)

subsection \<open>Rollback\<close>

text \<open>In general: when the chat has cached data with a first page, \<^verbatim>\<open>onMutate\<close> returns the
  reference to the data object as the snapshot, and rolling back to it leaves the pages as
  the optimistic insert has made them.\<close>

lemma rollback_after_insert:
  assumes "query_data_ref (messages_key c) s = Some a" and "pages (heap s a) = p # ps"
  shows "fst (onMutate c account t_id t_created r vars s) = Inr \<lparr>previousChatMessages = Some a\<rparr>
     \<and> cached_pages (messages_key c) s = Some (p # ps)
     \<and> cached_pages (messages_key c)
         (snd (onError c (Some \<lparr>previousChatMessages = Some a\<rparr>)
            (snd (onMutate c account t_id t_created r vars s))))
       = Some (p\<lparr>result := result p @ [pending_message account t_id t_created vars]\<rparr> # ps)"
proof -
  from assms(1) obtain q where q: "queries s (messages_key c) = Some q" "q_data q = Some a"
    by (auto simp: query_data_ref_def split: option.splits)
  then show ?thesis
    using assms(2)
    by (simp add: pipeline_defs client_defs cached_pages_def Let_def array_map_first)
qed

text \<open>C1 (rollback exactness), evaluated on a chat whose first cached page holds one older
  message. \<^verbatim>\<open>onMutate\<close> returns as the snapshot the reference to the cached data object; the
  optimistic insert then assigns the new pages to that same object. Rolling back with
  \<^verbatim>\<open>onError\<close> makes the query point to the object again, and the pages read from the cache
  after the rollback still hold the pending message: they differ from the pages at the
  moment the snapshot was taken.\<close>

theorem rollback_keeps_optimistic_entry:
  "fst (onMutate sample_chat (Some ''alice'') 1700 1701 (1/2)
          \<lparr>chatId = ''7'', v_content = ''hi''\<rparr> cached_draft)
     = Inr \<lparr>previousChatMessages = Some 0\<rparr>
   \<and> cached_pages (messages_key sample_chat) cached_draft
     = Some [\<lparr>result = [older_message], page_rest = ()\<rparr>]
   \<and> cached_pages (messages_key sample_chat)
       (snd (onError sample_chat (Some \<lparr>previousChatMessages = Some 0\<rparr>)
          (snd (onMutate sample_chat (Some ''alice'') 1700 1701 (1/2)
                  \<lparr>chatId = ''7'', v_content = ''hi''\<rparr> cached_draft))))
     = Some [\<lparr>result = [older_message,
                pending_message (Some ''alice'') 1700 1701
                  \<lparr>chatId = ''7'', v_content = ''hi''\<rparr>],
              page_rest = ()\<rparr>]
   \<and> cached_pages (messages_key sample_chat)
       (snd (onError sample_chat (Some \<lparr>previousChatMessages = Some 0\<rparr>)
          (snd (onMutate sample_chat (Some ''alice'') 1700 1701 (1/2)
                  \<lparr>chatId = ''7'', v_content = ''hi''\<rparr> cached_draft))))
     \<noteq> cached_pages (messages_key sample_chat) cached_draft"
  by (simp add: Let_def pipeline_defs client_defs sample_defs cached_pages_def array_map_def)

text \<open>C7 (settle invariant), evaluated on the same chat: after the send and the failure of
  the create-message call, the cache has been written by the rollback and then invalidated
  once, in this order, and no submission is loading; but the pages read from the cache
  still hold the pending message of the failed attempt.\<close>

theorem failed_send_keeps_pending_message:
  "cached_pages (messages_key sample_chat)
       (settle sample_chat Failure
          (sendMessage sample_chat (Some ''alice'') 1700 1701 (1/2) cached_draft))
     = Some [\<lparr>result = [older_message,
                pending_message (Some ''alice'') 1700 1701
                  \<lparr>chatId = ''7'', v_content = ''hi''\<rparr>],
              page_rest = ()\<rparr>]
   \<and> effects_since
       (sendMessage sample_chat (Some ''alice'') 1700 1701 (1/2) cached_draft)
       (settle sample_chat Failure
          (sendMessage sample_chat (Some ''alice'') 1700 1701 (1/2) cached_draft))
     = [NetResponse Failure, CacheWritten (messages_key sample_chat),
        QueriesInvalidated (messages_key sample_chat)]
   \<and> \<not> isLoading
       (settle sample_chat Failure
          (sendMessage sample_chat (Some ''alice'') 1700 1701 (1/2) cached_draft))"
  by (simp add: Let_def sendMessage_def settle_def pipeline_defs client_defs sample_defs
      cached_pages_def array_map_def isSubmitDisabled_def isLoading_def effects_since_def)

subsection \<open>Single flight\<close>

text \<open>A call made in a render that has seen the submission loading, or the composer empty,
  is rejected (see \<open>sendMessage_call_rejected\<close>): the guard does its work once the component
  has rendered again. Within one render it does not.\<close>

text \<open>C5 (single flight), evaluated on two calls of \<^verbatim>\<open>sendMessage\<close> made one after the other
  in one render of the component, with the draft \<open>hi\<close> on a chat with cached data. The
  guard reads the constants of the render, which the first call does not change: both
  calls pass it and each starts a mutation. After the steps of the two mutations have run,
  two create-message calls have been issued and no outcome has arrived, and the first page
  holds two pending messages.\<close>

theorem two_sends_in_one_render:
  "snd (sendMessage_call (render_of cached_draft) sample_chat cached_draft)
     = Some \<lparr>chatId = ''7'', v_content = ''hi''\<rparr>
   \<and> snd (sendMessage_call (render_of cached_draft) sample_chat
          (fst (sendMessage_call (render_of cached_draft) sample_chat cached_draft)))
     = Some \<lparr>chatId = ''7'', v_content = ''hi''\<rparr>
   \<and> filter is_create_call (effects
        (submitMessage_continue sample_chat (Some ''alice'') 1702 1703 (1/4)
           \<lparr>chatId = ''7'', v_content = ''hi''\<rparr>
           (submitMessage_continue sample_chat (Some ''alice'') 1700 1701 (1/2)
              \<lparr>chatId = ''7'', v_content = ''hi''\<rparr>
              (fst (sendMessage_call (render_of cached_draft) sample_chat
                 (fst (sendMessage_call (render_of cached_draft) sample_chat cached_draft)))))))
     = [NetCreateMessage ''7'' ''hi'', NetCreateMessage ''7'' ''hi'']
   \<and> filter is_response (effects
        (submitMessage_continue sample_chat (Some ''alice'') 1702 1703 (1/4)
           \<lparr>chatId = ''7'', v_content = ''hi''\<rparr>
           (submitMessage_continue sample_chat (Some ''alice'') 1700 1701 (1/2)
              \<lparr>chatId = ''7'', v_content = ''hi''\<rparr>
              (fst (sendMessage_call (render_of cached_draft) sample_chat
                 (fst (sendMessage_call (render_of cached_draft) sample_chat cached_draft)))))))
     = []
   \<and> cached_pages (messages_key sample_chat)
        (submitMessage_continue sample_chat (Some ''alice'') 1702 1703 (1/4)
           \<lparr>chatId = ''7'', v_content = ''hi''\<rparr>
           (submitMessage_continue sample_chat (Some ''alice'') 1700 1701 (1/2)
              \<lparr>chatId = ''7'', v_content = ''hi''\<rparr>
              (fst (sendMessage_call (render_of cached_draft) sample_chat
                 (fst (sendMessage_call (render_of cached_draft) sample_chat cached_draft))))))
     = Some [\<lparr>result = [older_message,
                pending_message (Some ''alice'') 1700 1701 \<lparr>chatId = ''7'', v_content = ''hi''\<rparr>,
                pending_message (Some ''alice'') 1702 1703 \<lparr>chatId = ''7'', v_content = ''hi''\<rparr>],
              page_rest = ()\<rparr>]"
  by (simp add: sendMessage_call_def submitMessage_continue_def render_of_def
      r_isSubmitDisabled_def isLoading_def pipeline_defs client_defs sample_defs
      cached_pages_def array_map_def Let_def)

subsection \<open>The call and the steps taken together\<close>

lemma submitMessage_continue_uncached:
  assumes "query_data_ref (messages_key c) s = None"
  shows "submitMessage_continue c account t_id t_created r vars s =
     s\<lparr>content := '''', attachment := None, isUploading := False, uploadProgress := 0,
       resetFileKey := fileKeyGen r,
       queries := (\<lambda>k'. map_option
            (\<lambda>q. if prefix (messages_key c) k' then q\<lparr>q_fetching := False\<rparr> else q)
            (queries s k')),
       submitMessage := None,
       effects := effects s @ [DraftCleared, QueriesCancelled (messages_key c),
          SnapshotRead (messages_key c), CacheWritten (messages_key c)]\<rparr>"
  using assms
  by (simp add: submitMessage_continue_def pipeline_defs client_defs Let_def
      split: option.splits)

text \<open>\<open>sendMessage\<close> is the call of the handler in the render of \<open>s\<close> followed by the steps of
  the mutation it starts: the two give the same state, and the same effects in the same
  order but for the accept-chat call, which the handler issues before the steps run.\<close>

lemma sendMessage_call_then_steps:
  assumes "\<not> isSubmitDisabled s" and "\<not> isLoading s"
  shows "snd (sendMessage_call (render_of s) c s)
       = Some \<lparr>chatId = chat_id c, v_content = content s\<rparr>
     \<and> (submitMessage_continue c account t_id t_created r
          \<lparr>chatId = chat_id c, v_content = content s\<rparr>
          (fst (sendMessage_call (render_of s) c s)))\<lparr>effects := []\<rparr>
       = (sendMessage c account t_id t_created r s)\<lparr>effects := []\<rparr>
     \<and> effects_since s
          (submitMessage_continue c account t_id t_created r
             \<lparr>chatId = chat_id c, v_content = content s\<rparr>
             (fst (sendMessage_call (render_of s) c s)))
       = NetAcceptChat (chat_id c)
          # filter (\<lambda>e. \<not> is_accept_call e)
              (effects_since s (sendMessage c account t_id t_created r s))"
proof -
  let ?vars = "\<lparr>chatId = chat_id c, v_content = content s\<rparr>"
  let ?s1 = "s\<lparr>submitMessage := Some \<lparr>m_variables = ?vars, m_context = None\<rparr>,
               effects := effects s @ [NetAcceptChat (chat_id c)]\<rparr>"
  have g: "\<not> r_isSubmitDisabled (render_of s)" "\<not> r_isLoading (render_of s)"
    using assms by (simp_all add: r_isSubmitDisabled_def render_of_def isSubmitDisabled_def)
  have call: "sendMessage_call (render_of s) c s = (?s1, Some ?vars)"
    using sendMessage_call_accepted [OF g, of c s] by (simp add: render_of_def)
  from query_data_ref_cases [of "messages_key c" s] show ?thesis
  proof
    assume u: "query_data_ref (messages_key c) s = None"
    then have u1: "query_data_ref (messages_key c) ?s1 = None"
      by (simp add: query_data_ref_def)
    show ?thesis
      unfolding call fst_conv snd_conv
      by (simp add: submitMessage_continue_uncached [OF u1]
          sendMessage_uncached [OF assms u] effects_since_def)
  next
    assume "\<exists>q a. queries s (messages_key c) = Some q \<and> q_data q = Some a"
    then obtain q a where q: "queries s (messages_key c) = Some q" "q_data q = Some a" by blast
    then have q1: "queries ?s1 (messages_key c) = Some q"
      by simp
    show ?thesis
      unfolding call fst_conv snd_conv
      by (simp add: submitMessage_continue_cached [OF q1 q(2)]
          sendMessage_cached [OF assms q] effects_since_def)
  qed
qed

subsection \<open>What an accepted send does, in order\<close>

lemma effects_since_sendMessage:
  assumes "\<not> isSubmitDisabled s" and "\<not> isLoading s"
  shows "effects_since s (sendMessage c account t_id t_created r s) =
     [DraftCleared, QueriesCancelled (messages_key c), SnapshotRead (messages_key c),
      CacheWritten (messages_key c)]
     @ (if query_data_ref (messages_key c) s = None then []
        else [NetCreateMessage (chat_id c) (content s)])
     @ [NetAcceptChat (chat_id c)]"
  using query_data_ref_cases [of "messages_key c" s]
proof
  assume "query_data_ref (messages_key c) s = None"
  with assms show ?thesis
    by (simp add: sendMessage_uncached effects_since_def)
next
  assume "\<exists>q a. queries s (messages_key c) = Some q \<and> q_data q = Some a"
  then obtain q a where q: "queries s (messages_key c) = Some q" "q_data q = Some a" by blast
  then have "query_data_ref (messages_key c) s \<noteq> None"
    by (simp add: query_data_ref_def)
  with assms q show ?thesis
    by (simp add: sendMessage_cached effects_since_def)
qed

lemma composer_after_sendMessage:
  assumes "\<not> isSubmitDisabled s" and "\<not> isLoading s"
  shows "content (sendMessage c account t_id t_created r s) = ''''
     \<and> attachment (sendMessage c account t_id t_created r s) = None
     \<and> \<not> isUploading (sendMessage c account t_id t_created r s)
     \<and> uploadProgress (sendMessage c account t_id t_created r s) = 0"
  using query_data_ref_cases [of "messages_key c" s] assms
  by (auto simp: sendMessage_uncached sendMessage_cached)

lemma fetch_cancelled_after_sendMessage:
  assumes "\<not> isSubmitDisabled s" and "\<not> isLoading s"
    and "queries (sendMessage c account t_id t_created r s) (messages_key c) = Some q"
  shows "\<not> q_fetching q"
  using query_data_ref_cases [of "messages_key c" s] assms
  by (auto simp: sendMessage_uncached sendMessage_cached)

lemma snapshot_after_sendMessage:
  assumes "\<not> isSubmitDisabled s" and "\<not> isLoading s"
    and "query_data_ref (messages_key c) s \<noteq> None"
  shows "map_option m_context (submitMessage (sendMessage c account t_id t_created r s))
     = Some (Some \<lparr>previousChatMessages = query_data_ref (messages_key c) s\<rparr>)"
proof -
  obtain q a where q: "queries s (messages_key c) = Some q" "q_data q = Some a"
    using query_data_ref_cases [of "messages_key c" s] assms(3) by blast
  then have "query_data_ref (messages_key c) s = Some a"
    by (simp add: query_data_ref_def)
  with assms q show ?thesis
    by (simp add: sendMessage_cached)
qed

text \<open>C6 (pre-insert ordering): for every send that passes the guard, the effects of the
  submission (all the effects of the send but the accept-chat call, which is issued
  concurrently) are, in this order: the draft is cleared, the refetches of the chat's
  messages are cancelled, the snapshot is read, the cache is written by the optimistic
  insert, and then, when the chat had cached data, the create-message call is issued. No
  outcome of a network call has arrived by then. In the state after the send the composer
  is cleared (content, attachment, upload flag and progress), no fetch of the chat's
  messages is in flight, and the context of the running mutation holds the reference that
  the cache held before the insert.\<close>

theorem pre_insert_ordering:
  assumes "\<not> isSubmitDisabled s" and "\<not> isLoading s"
  shows "let k = messages_key c; s' = sendMessage c account t_id t_created r s
     in filter (\<lambda>e. \<not> is_accept_call e) (effects_since s s') =
          [DraftCleared, QueriesCancelled k, SnapshotRead k, CacheWritten k]
          @ (if query_data_ref k s = None then []
             else [NetCreateMessage (chat_id c) (content s)])
        \<and> filter is_response (effects_since s s') = []
        \<and> content s' = '''' \<and> attachment s' = None \<and> \<not> isUploading s'
        \<and> uploadProgress s' = 0
        \<and> (\<forall>q. queries s' k = Some q \<longrightarrow> \<not> q_fetching q)
        \<and> (query_data_ref k s \<noteq> None \<longrightarrow>
             map_option m_context (submitMessage s')
               = Some (Some \<lparr>previousChatMessages = query_data_ref k s\<rparr>))"
  unfolding Let_def
  using composer_after_sendMessage [OF assms, of c account t_id t_created r]
    fetch_cancelled_after_sendMessage [OF assms, of c account t_id t_created r]
    snapshot_after_sendMessage [OF assms, of c account t_id t_created r]
  by (simp add: effects_since_sendMessage [OF assms])

theorem pre_insert_ordering_witness:
  "\<not> isSubmitDisabled cached_draft \<and> \<not> isLoading cached_draft
   \<and> query_data_ref (messages_key sample_chat) cached_draft = Some 0
   \<and> map_option q_fetching (queries cached_draft (messages_key sample_chat)) = Some True
   \<and> (let k = messages_key sample_chat;
           s' = sendMessage sample_chat (Some ''alice'') 1700 1701 (1/2) cached_draft
       in filter (\<lambda>e. \<not> is_accept_call e) (effects_since cached_draft s') =
            [DraftCleared, QueriesCancelled k, SnapshotRead k, CacheWritten k,
             NetCreateMessage ''7'' ''hi'']
          \<and> content s' = '''' \<and> attachment s' = None
          \<and> map_option q_fetching (queries s' k) = Some False
          \<and> map_option m_context (submitMessage s')
               = Some (Some \<lparr>previousChatMessages = Some 0\<rparr>))"
proof -
  let ?s' = "sendMessage sample_chat (Some ''alice'') 1700 1701 (1/2) cached_draft"
  have facts: "chat_id sample_chat = ''7''" "content cached_draft = ''hi''"
    "map_option q_fetching (queries cached_draft (messages_key sample_chat)) = Some True"
    by (simp_all add: sample_defs)
  have q: "queries cached_draft (messages_key sample_chat)
      = Some \<lparr>q_data = Some 0, q_fetching = True, q_invalidated = False\<rparr>"
    by (simp add: sample_defs)
  have "\<exists>q'. queries ?s' (messages_key sample_chat) = Some q'"
    by (simp add: sendMessage_cached [OF cached_draft_guard q])
  then obtain q' where q': "queries ?s' (messages_key sample_chat) = Some q'" ..
  note po = pre_insert_ordering [OF cached_draft_guard,
        of sample_chat "Some ''alice''" 1700 1701 "1/2", unfolded Let_def]
  from po q' have "\<not> q_fetching q'" by blast
  with q' have "map_option q_fetching (queries ?s' (messages_key sample_chat)) = Some False"
    by simp
  with po show ?thesis
    by (simp add: Let_def facts cached_draft_ref cached_draft_guard)
qed

subsection \<open>The accept-chat call\<close>

text \<open>C9, as the code has it: every send that passes the guard issues the accept-chat call
  for the chat, exactly once, whatever the chat and the own account are; the value of
  \<^verbatim>\<open>needsAcceptance\<close> is not consulted.\<close>

theorem send_always_accepts:
  assumes "\<not> isSubmitDisabled s" and "\<not> isLoading s"
  shows "filter is_accept_call (effects_since s (sendMessage c account t_id t_created r s))
     = [NetAcceptChat (chat_id c)]"
  by (simp add: effects_since_sendMessage [OF assms])

theorem send_always_accepts_witness:
  "\<not> isSubmitDisabled cached_draft \<and> \<not> isLoading cached_draft
   \<and> needsAcceptance (sample_chat\<lparr>accepted := False, created_by_account := ''bob''\<rparr>)
        (Some ''alice'')
   \<and> filter is_accept_call (effects_since cached_draft
        (sendMessage (sample_chat\<lparr>accepted := False, created_by_account := ''bob''\<rparr>)
           (Some ''alice'') 1700 1701 (1/2) cached_draft))
     = [NetAcceptChat ''7'']"
  using send_always_accepts [OF cached_draft_guard,
      of "sample_chat\<lparr>accepted := False, created_by_account := ''bob''\<rparr>"
         "Some ''alice''" 1700 1701 "1/2"]
  by (simp add: cached_draft_guard needsAcceptance_def sample_chat_def)

text \<open>C9, as stated (no accept-chat call on a chat that is already accepted), fails: the
  sample chat is accepted, so the gate does not need acceptance, and the send issues the
  accept-chat call all the same.\<close>

theorem accept_issued_on_accepted_chat:
  "\<not> needsAcceptance sample_chat (Some ''alice'')
   \<and> NetAcceptChat ''7'' \<in> set (effects_since cached_draft
        (sendMessage sample_chat (Some ''alice'') 1700 1701 (1/2) cached_draft))"
  by (simp add: effects_since_sendMessage [OF cached_draft_guard] needsAcceptance_def)
    (simp add: sample_chat_def)

subsection \<open>The attachment\<close>

text \<open>C10 (the attachment is dropped): for every send performed while an attachment is set
  and no submission is loading, the only create-message call issued carries the chat id and
  the composer's content, and the whole state after the send, with its log of network calls
  and the optimistic message in the store, is the same whichever attachment was set; when
  the content is not empty it is also the same as if no attachment had been set.\<close>

theorem attachment_dropped_from_send:
  assumes "attachment s = Some a" and "\<not> isLoading s"
  shows "let s' = sendMessage c account t_id t_created r s
     in filter is_create_call (effects_since s s') =
          (if query_data_ref (messages_key c) s = None then []
           else [NetCreateMessage (chat_id c) (content s)])
        \<and> sendMessage c account t_id t_created r (s\<lparr>attachment := Some a'\<rparr>) = s'
        \<and> (content s \<noteq> '''' \<longrightarrow>
             sendMessage c account t_id t_created r (s\<lparr>attachment := None\<rparr>) = s')"
proof -
  have g: "\<not> isSubmitDisabled s" "\<not> isSubmitDisabled (s\<lparr>attachment := Some a'\<rparr>)"
    "content s \<noteq> '''' \<Longrightarrow> \<not> isSubmitDisabled (s\<lparr>attachment := None\<rparr>)"
    using assms by (simp_all add: isSubmitDisabled_def)
  have e: "filter is_create_call (effects_since s (sendMessage c account t_id t_created r s)) =
          (if query_data_ref (messages_key c) s = None then []
           else [NetCreateMessage (chat_id c) (content s)])"
    by (simp add: effects_since_sendMessage [OF g(1) assms(2)])
  have same: "sendMessage c account t_id t_created r (s\<lparr>attachment := x\<rparr>)
      = sendMessage c account t_id t_created r s"
    if "\<not> isSubmitDisabled (s\<lparr>attachment := x\<rparr>)" for x
    using query_data_ref_cases [of "messages_key c" s]
  proof
    assume u: "query_data_ref (messages_key c) s = None"
    then have "query_data_ref (messages_key c) (s\<lparr>attachment := x\<rparr>) = None"
      by (simp add: query_data_ref_def)
    with u that g(1) assms(2) show ?thesis
      by (simp add: sendMessage_uncached isLoading_def)
  next
    assume "\<exists>q a. queries s (messages_key c) = Some q \<and> q_data q = Some a"
    then obtain q b where q: "queries s (messages_key c) = Some q" "q_data q = Some b" by blast
    then have q': "queries (s\<lparr>attachment := x\<rparr>) (messages_key c) = Some q"
      by simp
    have l: "\<not> isLoading (s\<lparr>attachment := x\<rparr>)"
      using assms(2) by (simp add: isLoading_def)
    show ?thesis
      by (simp add: sendMessage_cached [OF g(1) assms(2) q]
          sendMessage_cached [OF that l q' q(2)] cong: if_cong)
  qed
  show ?thesis
    unfolding Let_def using e same [of "Some a'"] same [of None] g by simp
qed

theorem attachment_dropped_from_send_witness:
  "attachment (handleFiles_then \<lparr>att_id = ''m1'', preview_url = ''u1''\<rparr> cached_draft)
      = Some \<lparr>att_id = ''m1'', preview_url = ''u1''\<rparr>
   \<and> \<not> isLoading (handleFiles_then \<lparr>att_id = ''m1'', preview_url = ''u1''\<rparr> cached_draft)
   \<and> filter is_create_call
       (effects (sendMessage sample_chat (Some ''alice'') 1700 1701 (1/2)
          (handleFiles_then \<lparr>att_id = ''m1'', preview_url = ''u1''\<rparr> cached_draft)))
     = [NetCreateMessage ''7'' ''hi'']
   \<and> sendMessage sample_chat (Some ''alice'') 1700 1701 (1/2)
       (handleFiles_then \<lparr>att_id = ''m1'', preview_url = ''u1''\<rparr> cached_draft)
     = sendMessage sample_chat (Some ''alice'') 1700 1701 (1/2) cached_draft"
proof -
  let ?s = "handleFiles_then \<lparr>att_id = ''m1'', preview_url = ''u1''\<rparr> cached_draft"
  have h: "attachment ?s = Some \<lparr>att_id = ''m1'', preview_url = ''u1''\<rparr>" "\<not> isLoading ?s"
    by (simp_all add: handleFiles_then_def isLoading_def sample_defs)
  have f: "query_data_ref (messages_key sample_chat) ?s = Some 0" "content ?s = ''hi''"
    "chat_id sample_chat = ''7''" "effects ?s = []" "?s\<lparr>attachment := None\<rparr> = cached_draft"
    by (simp_all add: handleFiles_then_def query_data_ref_def sample_defs)
  show ?thesis
    using attachment_dropped_from_send [OF h, of sample_chat "Some ''alice''" 1700 1701 "1/2"
        "\<lparr>att_id = ''m1'', preview_url = ''u1''\<rparr>"] h
    by (simp add: Let_def f effects_since_def)
qed

subsection \<open>The reset token\<close>

text \<open>C8, as the code has it: removing the attachment replaces the reset token by the value
  \<^verbatim>\<open>fileKeyGen()\<close> draws, an integer from 0 to 65535 that does not depend on the token before;
  the failure of an upload leaves the reset token as it is.\<close>

theorem reset_token_redrawn:
  assumes "0 \<le> r" and "r < 1"
  shows "resetFileKey (handleRemoveFile r s) = fileKeyGen r
     \<and> 0 \<le> fileKeyGen r \<and> fileKeyGen r < 65536
     \<and> resetFileKey (handleFiles_catch s) = resetFileKey s"
proof -
  have "0 \<le> r * 65536" "r * 65536 < 65536" using assms by simp_all
  then have "0 \<le> \<lfloor>r * 65536\<rfloor>" "\<lfloor>r * 65536\<rfloor> < 65536"
    by (simp_all add: floor_less_iff)
  then show ?thesis
    by (simp add: handleRemoveFile_def handleFiles_catch_def fileKeyGen_def)
qed

theorem reset_token_redrawn_witness:
  "(0::real) \<le> 1/65536 \<and> (1/65536 :: real) < 1
   \<and> resetFileKey cached_draft = 5
   \<and> resetFileKey (handleRemoveFile (1/65536) cached_draft) = 1
   \<and> resetFileKey (handleFiles_catch cached_draft) = 5"
  using reset_token_redrawn [of "1/65536" cached_draft]
  by (simp add: fileKeyGen_def sample_defs handleFiles_catch_def)

text \<open>C8, as stated (each removal and each failed upload yields a strictly greater token,
  and two removals in a row never yield the same one), fails: from the token 5 a removal
  that draws \<open>1/65536\<close> yields the token 1; two removals in a row that draw \<open>1/2\<close> and
  \<open>1/2 + 1/1000000\<close> both yield 32768; and after the failure of an upload the token is
  what it was.\<close>

theorem reset_token_not_monotone:
  "\<not> resetFileKey cached_draft < resetFileKey (handleRemoveFile (1/65536) cached_draft)
   \<and> resetFileKey (handleRemoveFile (1/2 + 1/1000000) (handleRemoveFile (1/2) cached_draft))
       = resetFileKey (handleRemoveFile (1/2) cached_draft)
   \<and> \<not> resetFileKey (handleFiles cached_draft)
         < resetFileKey (handleFiles_catch (handleFiles cached_draft))"
  by (simp add: handleRemoveFile_def handleFiles_def handleFiles_catch_def fileKeyGen_def
      log_effect_def sample_defs)

end
